theory Spec2Isabelle
  imports Complex_Main
begin

section \<open>Numbers as the program has them\<close>

text \<open>
  The program computes with numpy \<open>float64\<close> values. They are modelled as exact reals
  extended with the three special values that the code can produce and react to: a
  division by zero gives \<open>inf\<close>, \<open>-inf\<close> or \<open>nan\<close> (numpy warns, it does not raise), and every
  comparison with \<open>nan\<close> is false. Rounding and signed zeros are not modelled.
\<close>

datatype npfloat = Fin real | PInf | NInf | NaN

definition signed_inf :: "real \<Rightarrow> npfloat" where
  "signed_inf s = (if s = 0 then NaN else if 0 < s then PInf else NInf)"

fun fneg :: "npfloat \<Rightarrow> npfloat" where
  "fneg (Fin a) = Fin (- a)"
| "fneg PInf = NInf"
| "fneg NInf = PInf"
| "fneg NaN = NaN"

fun fadd :: "npfloat \<Rightarrow> npfloat \<Rightarrow> npfloat" where
  "fadd (Fin a) (Fin b) = Fin (a + b)"
| "fadd NaN y = NaN"
| "fadd x NaN = NaN"
| "fadd PInf NInf = NaN"
| "fadd NInf PInf = NaN"
| "fadd PInf y = PInf"
| "fadd x PInf = PInf"
| "fadd NInf y = NInf"
| "fadd x NInf = NInf"

definition fsub :: "npfloat \<Rightarrow> npfloat \<Rightarrow> npfloat" where
  "fsub x y = fadd x (fneg y)"

fun fmul :: "npfloat \<Rightarrow> npfloat \<Rightarrow> npfloat" where
  "fmul (Fin a) (Fin b) = Fin (a * b)"
| "fmul NaN y = NaN"
| "fmul x NaN = NaN"
| "fmul PInf (Fin b) = signed_inf b"
| "fmul NInf (Fin b) = signed_inf (- b)"
| "fmul (Fin a) PInf = signed_inf a"
| "fmul (Fin a) NInf = signed_inf (- a)"
| "fmul PInf PInf = PInf"
| "fmul NInf NInf = PInf"
| "fmul PInf NInf = NInf"
| "fmul NInf PInf = NInf"

fun fdiv :: "npfloat \<Rightarrow> npfloat \<Rightarrow> npfloat" where
  "fdiv (Fin a) (Fin b) = (if b = 0 then signed_inf a else Fin (a / b))"
| "fdiv NaN y = NaN"
| "fdiv x NaN = NaN"
| "fdiv (Fin a) PInf = Fin 0"
| "fdiv (Fin a) NInf = Fin 0"
| "fdiv PInf (Fin b) = (if 0 \<le> b then PInf else NInf)"
| "fdiv NInf (Fin b) = (if 0 \<le> b then NInf else PInf)"
| "fdiv PInf PInf = NaN"
| "fdiv PInf NInf = NaN"
| "fdiv NInf PInf = NaN"
| "fdiv NInf NInf = NaN"

fun fsqrt :: "npfloat \<Rightarrow> npfloat" where
  "fsqrt (Fin a) = (if a < 0 then NaN else Fin (sqrt a))"
| "fsqrt PInf = PInf"
| "fsqrt NInf = NaN"
| "fsqrt NaN = NaN"

fun flt :: "npfloat \<Rightarrow> npfloat \<Rightarrow> bool" where
  "flt (Fin a) (Fin b) = (a < b)"
| "flt NaN y = False"
| "flt x NaN = False"
| "flt x NInf = False"
| "flt PInf y = False"
| "flt NInf y = True"
| "flt x PInf = True"

definition fgt :: "npfloat \<Rightarrow> npfloat \<Rightarrow> bool" where
  "fgt x y = flt y x"

definition fle :: "npfloat \<Rightarrow> npfloat \<Rightarrow> bool" where
  "fle x y = (x \<noteq> NaN \<and> y \<noteq> NaN \<and> \<not> flt y x)"

text \<open>\<open>x != y\<close> on floats: true as soon as one side is \<open>nan\<close>.\<close>

definition fne :: "npfloat \<Rightarrow> npfloat \<Rightarrow> bool" where
  "fne x y = (x = NaN \<or> y = NaN \<or> x \<noteq> y)"

text \<open>\<open>np.sum\<close>, \<open>np.mean\<close>, \<open>np.max\<close>, \<open>np.min\<close> and \<open>np.std\<close> over a one-dimensional array.
  \<open>np.max\<close> and \<open>np.min\<close> propagate \<open>nan\<close>; on an empty array they raise, and the model calls
  them on non-empty lists only (the value at \<open>[]\<close> is a placeholder). \<open>np.mean\<close> of an
  empty array is \<open>0.0 / 0 = nan\<close>.\<close>

primrec np_sum :: "npfloat list \<Rightarrow> npfloat" where
  "np_sum [] = Fin 0"
| "np_sum (x # xs) = fadd x (np_sum xs)"

definition np_mean :: "npfloat list \<Rightarrow> npfloat" where
  "np_mean xs = fdiv (np_sum xs) (Fin (real (length xs)))"

definition fmax2 :: "npfloat \<Rightarrow> npfloat \<Rightarrow> npfloat" where
  "fmax2 x y = (if x = NaN \<or> y = NaN then NaN else if flt x y then y else x)"

definition fmin2 :: "npfloat \<Rightarrow> npfloat \<Rightarrow> npfloat" where
  "fmin2 x y = (if x = NaN \<or> y = NaN then NaN else if flt y x then y else x)"

fun np_max :: "npfloat list \<Rightarrow> npfloat" where
  "np_max [] = NaN"
| "np_max [x] = x"
| "np_max (x # y # ys) = fmax2 x (np_max (y # ys))"

fun np_min :: "npfloat list \<Rightarrow> npfloat" where
  "np_min [] = NaN"
| "np_min [x] = x"
| "np_min (x # y # ys) = fmin2 x (np_min (y # ys))"

definition np_std :: "npfloat list \<Rightarrow> npfloat" where
  "np_std xs = (let m = np_mean xs in
     fsqrt (np_mean (map (\<lambda>x. fmul (fsub x m) (fsub x m)) xs)))"

text \<open>\<open>np.nan_to_num(scores, nan=0.0)\<close>: \<open>nan\<close> becomes 0, the infinities become the
  largest finite doubles.\<close>

definition float_max :: real where
  "float_max = (2 - 1 / 2 ^ 52) * 2 ^ 1023"

fun nan_to_num :: "npfloat \<Rightarrow> npfloat" where
  "nan_to_num NaN = Fin 0"
| "nan_to_num PInf = Fin float_max"
| "nan_to_num NInf = Fin (- float_max)"
| "nan_to_num (Fin a) = Fin a"

text \<open>A Python number in a list handed to \<open>np.array\<close>: an \<open>int\<close> or a \<open>float\<close>. The array is
  \<open>int64\<close> when it has entries and all of them are ints, \<open>float64\<close> otherwise. Ints are taken
  to fit 64 bits.\<close>

datatype pynum = PyInt int | PyFloat npfloat

datatype ndarray = IntArr "int list list" | FloatArr "npfloat list list"

fun is_pyint :: "pynum \<Rightarrow> bool" where
  "is_pyint (PyInt k) = True"
| "is_pyint (PyFloat x) = False"

fun the_pyint :: "pynum \<Rightarrow> int" where
  "the_pyint (PyInt k) = k"
| "the_pyint (PyFloat x) = 0"

fun to_float :: "pynum \<Rightarrow> npfloat" where
  "to_float (PyInt k) = Fin (of_int k)"
| "to_float (PyFloat x) = x"

definition np_array :: "pynum list list \<Rightarrow> ndarray" where
  "np_array rows =
     (if concat rows \<noteq> [] \<and> list_all is_pyint (concat rows)
      then IntArr (map (map the_pyint) rows)
      else FloatArr (map (map to_float) rows))"

fun as_float :: "ndarray \<Rightarrow> npfloat list list" where
  "as_float (IntArr m) = map (map (\<lambda>k. Fin (of_int k))) m"
| "as_float (FloatArr m) = m"

text \<open>Storing a float into an \<open>int64\<close> array truncates towards zero; a value that is not
  finite or does not fit is stored as the smallest \<open>int64\<close> (x86-64).\<close>

definition cast_int64 :: "npfloat \<Rightarrow> int" where
  "cast_int64 x = (case x of
       Fin a \<Rightarrow> (let t = (if 0 \<le> a then \<lfloor>a\<rfloor> else \<lceil>a\<rceil>)
                 in if - (2 ^ 63) \<le> t \<and> t < 2 ^ 63 then t else - (2 ^ 63))
     | _ \<Rightarrow> - (2 ^ 63))"

section \<open>Data model (models.py)\<close>

datatype criteria_type = BENEFIT | COST

record criteria =
  cr_id :: int
  cr_name :: string
  cr_weight :: real
  cr_type :: criteria_type
  cr_description :: "string option"

record time_slot =
  ts_id :: int
  ts_day :: string
  ts_start_time :: string
  ts_end_time :: string
  ts_session :: string

record room =
  rm_id :: int
  rm_name :: string
  rm_capacity :: int
  rm_facilities :: "string list"
  rm_location :: string
  rm_quality_score :: real

record examiner =
  ex_id :: int
  ex_name :: string
  ex_title :: string
  ex_expertise :: "string list"
  ex_experience_years :: int
  ex_workload :: int
  ex_availability_score :: real
  ex_competency_score :: real
  ex_available_timeslots :: "int list"

record student =
  st_id :: int
  st_name :: string
  st_nim :: string
  st_thesis_title :: string
  st_thesis_field :: string
  st_supervisor_id :: int
  st_gpa :: real
  st_thesis_quality :: real
  st_preferred_timeslots :: "int list option"

record exam_session =
  es_id :: int
  es_student_id :: int
  es_duration :: int
  es_required_examiners :: int
  es_priority :: real

record schedule_result =
  exam_id :: int
  student_name :: string
  timeslot_id :: int
  room_id :: int
  assigned_examiners :: "int list"
  total_score :: npfloat
  criteria_scores :: "string \<rightharpoonup> npfloat"

record dss_solution =
  schedule :: "schedule_result list"
  method_used :: string
  total_satisfaction :: npfloat
  criteria_weights :: "string \<rightharpoonup> npfloat"
  infeasible_exams :: "int list"

text \<open>The exceptions the core can raise: \<open>ValueError("Unsupported method: ...")\<close> of the
  engine, the \<open>ValidationError\<close> of a pydantic model whose field constraint fails, and the
  errors numpy raises on arrays whose shapes do not fit.\<close>

datatype error = UnsupportedMethod | ValidationError | ShapeError

text \<open>A Python \<open>dict\<close> built from a list of pairs: a later pair overrides an earlier one.\<close>

definition py_dict :: "('k \<times> 'v) list \<Rightarrow> ('k \<rightharpoonup> 'v)" where
  "py_dict kvs = map_of (rev kvs)"

section \<open>Strings\<close>

text \<open>Strings are lists of 8-bit characters; \<open>str.upper\<close>, \<open>str.lower\<close> and \<open>str.split\<close>
  are modelled on ASCII.\<close>

definition upper_char :: "char \<Rightarrow> char" where
  "upper_char c = (let n = (of_char c :: nat) in
     if 97 \<le> n \<and> n \<le> 122 then char_of (n - 32) else c)"

definition lower_char :: "char \<Rightarrow> char" where
  "lower_char c = (let n = (of_char c :: nat) in
     if 65 \<le> n \<and> n \<le> 90 then char_of (n + 32) else c)"

definition py_upper :: "string \<Rightarrow> string" where
  "py_upper s = map upper_char s"

definition py_lower :: "string \<Rightarrow> string" where
  "py_lower s = map lower_char s"

definition is_space :: "char \<Rightarrow> bool" where
  "is_space c = (let n = (of_char c :: nat) in
     (9 \<le> n \<and> n \<le> 13) \<or> (28 \<le> n \<and> n \<le> 32))"

text \<open>\<open>s.split()\<close>: the maximal runs of non-blank characters, in order.\<close>

fun split_acc :: "string \<Rightarrow> string \<Rightarrow> string list" where
  "split_acc w [] = (if w = [] then [] else [rev w])"
| "split_acc w (c # cs) =
     (if is_space c then (if w = [] then split_acc [] cs else rev w # split_acc [] cs)
      else split_acc (c # w) cs)"

definition py_split :: "string \<Rightarrow> string list" where
  "py_split s = split_acc [] s"

fun starts_with :: "string \<Rightarrow> string \<Rightarrow> bool" where
  "starts_with [] ys = True"
| "starts_with (x # xs) [] = False"
| "starts_with (x # xs) (y # ys) = (x = y \<and> starts_with xs ys)"

text \<open>\<open>a in b\<close> on strings: \<open>a\<close> occurs in \<open>b\<close> as a contiguous block.\<close>

fun str_in :: "string \<Rightarrow> string \<Rightarrow> bool" where
  "str_in a [] = (a = [])"
| "str_in a (y # ys) = (starts_with a (y # ys) \<or> str_in a ys)"

section \<open>MCDM methods (mcdm\_methods.py)\<close>

subsection \<open>AHPMethod\<close>

text \<open>\<open>self.random_index.get(n, 1.49)\<close>.\<close>

definition random_index :: "nat \<Rightarrow> real" where
  "random_index n =
     (if n = 1 then 0 else if n = 2 then 0 else if n = 3 then 0.58 else if n = 4 then 0.90
      else if n = 5 then 1.12 else if n = 6 then 1.24 else if n = 7 then 1.32
      else if n = 8 then 1.41 else if n = 9 then 1.45 else if n = 10 then 1.49 else 1.49)"

text \<open>Lines 42 to 44 of \<open>calculate_weights\<close>: the consistency ratio from the size \<open>n\<close> and
  the principal eigenvalue. \<open>max_eigenvalue\<close> is a numpy scalar, so both divisions are numpy
  divisions: a zero divisor gives \<open>nan\<close> or an infinity, not an exception.\<close>

definition consistency_ratio :: "nat \<Rightarrow> npfloat \<Rightarrow> npfloat" where
  "consistency_ratio n max_eigenvalue =
     (let consistency_index = fdiv (fsub max_eigenvalue (Fin (real n))) (Fin (real n - 1))
      in fdiv consistency_index (Fin (random_index n)))"

fun fabs :: "npfloat \<Rightarrow> npfloat" where
  "fabs (Fin a) = Fin \<bar>a\<bar>"
| "fabs PInf = PInf"
| "fabs NInf = PInf"
| "fabs NaN = NaN"

text \<open>\<open>calculate_weights\<close>. The eigen-decomposition is numpy's (\<open>np.linalg.eig\<close> followed by
  the \<open>argmax\<close> over the real parts); it is the parameter \<open>eig\<close>, which gives the principal
  eigenvalue and its eigenvector.\<close>

definition calculate_weights ::
  "(real list list \<Rightarrow> npfloat \<times> npfloat list) \<Rightarrow> real list list \<Rightarrow> npfloat list \<times> npfloat" where
  "calculate_weights eig pairwise_matrix =
     (let n = length pairwise_matrix;
          (max_eigenvalue, principal_eigenvector) = eig pairwise_matrix;
          weights = map (\<lambda>v. fabs (fdiv v (np_sum principal_eigenvector))) principal_eigenvector
      in (weights, consistency_ratio n max_eigenvalue))"

text \<open>The all-ones matrix of size \<open>n\<close>, and what it means for \<open>(lam, v)\<close> to be an eigenpair
  of a real matrix.\<close>

definition ones :: "nat \<Rightarrow> real list list" where
  "ones n = replicate n (replicate n 1)"

definition mat_vec :: "real list list \<Rightarrow> real list \<Rightarrow> real list" where
  "mat_vec m v = map (\<lambda>row. sum_list (map2 (*) row v)) m"

definition is_eigenpair :: "real list list \<Rightarrow> real \<Rightarrow> real list \<Rightarrow> bool" where
  "is_eigenpair m lam v =
     (length v = length m \<and> list_ex (\<lambda>x. x \<noteq> 0) v \<and> mat_vec m v = map (\<lambda>x. lam * x) v)"

subsection \<open>Shapes\<close>

text \<open>A two-dimensional array is the list of its rows. The scorers index it by column and
  combine it with one weight and one direction tag per column; the model computes on the
  shapes the engine builds (at least one row, every row as long as the criteria list) and
  answers \<open>ShapeError\<close> on every other shape, where numpy raises or broadcasts.\<close>

definition well_shaped :: "'a list list \<Rightarrow> nat \<Rightarrow> bool" where
  "well_shaped m n = (m \<noteq> [] \<and> list_all (\<lambda>r. length r = n) m)"

definition column :: "'a list list \<Rightarrow> nat \<Rightarrow> 'a list" where
  "column m j = map (\<lambda>r. r ! j) m"

text \<open>The rows of the array whose columns are \<open>cols\<close>, for \<open>k\<close> rows.\<close>

definition from_columns :: "nat \<Rightarrow> 'a list list \<Rightarrow> 'a list list" where
  "from_columns k cols = map (\<lambda>i. map (\<lambda>c. c ! i) cols) [0..<k]"

subsection \<open>SAWMethod\<close>

text \<open>The body of the loop of \<open>normalize_matrix\<close> for one column, in float arithmetic.\<close>

fun normalize_column :: "criteria_type \<Rightarrow> npfloat list \<Rightarrow> npfloat list" where
  "normalize_column BENEFIT col =
     (let max_val = np_max col
      in if fne max_val (Fin 0) then map (\<lambda>v. fdiv v max_val) col else col)"
| "normalize_column COST col =
     (let min_val = np_min col
      in if list_all (\<lambda>v. fne v (Fin 0)) col then map (\<lambda>v. fdiv min_val v) col
         else map (\<lambda>v. fsub (Fin 1) (fdiv v (np_max col))) col)"

definition normalize_float :: "npfloat list list \<Rightarrow> criteria_type list \<Rightarrow> npfloat list list" where
  "normalize_float m criteria_types =
     from_columns (length m)
       (map (\<lambda>j. normalize_column (criteria_types ! j) (column m j)) [0..<length criteria_types])"

text \<open>\<open>SAWMethod.normalize_matrix\<close>. The result array is \<open>np.zeros_like(decision_matrix)\<close>: it
  has the dtype of the input, so each normalized column is cast to \<open>int64\<close> when the input
  array is an integer array.\<close>

definition saw_normalize_matrix :: "ndarray \<Rightarrow> criteria_type list \<Rightarrow> error + ndarray" where
  "saw_normalize_matrix decision_matrix criteria_types =
     (if \<not> well_shaped (as_float decision_matrix) (length criteria_types) then Inl ShapeError
      else Inr (case decision_matrix of
          FloatArr m \<Rightarrow> FloatArr (normalize_float m criteria_types)
        | IntArr m \<Rightarrow>
            IntArr (map (map cast_int64) (normalize_float (as_float (IntArr m)) criteria_types))))"

definition dot :: "npfloat list \<Rightarrow> npfloat list \<Rightarrow> npfloat" where
  "dot row ws = np_sum (map2 fmul row ws)"

definition saw_calculate_scores ::
  "ndarray \<Rightarrow> npfloat list \<Rightarrow> criteria_type list \<Rightarrow> error + npfloat list" where
  "saw_calculate_scores decision_matrix weights criteria_types =
     (case saw_normalize_matrix decision_matrix criteria_types of
        Inl e \<Rightarrow> Inl e
      | Inr normalized_matrix \<Rightarrow>
          if length weights \<noteq> length criteria_types then Inl ShapeError
          else Inr (map (\<lambda>row. dot row weights) (as_float normalized_matrix)))"

subsection \<open>TOPSISMethod\<close>

definition topsis_normalize_matrix :: "npfloat list list \<Rightarrow> nat \<Rightarrow> npfloat list list" where
  "topsis_normalize_matrix m n =
     (let norms = map (\<lambda>j. fsqrt (np_sum (map (\<lambda>x. fmul x x) (column m j)))) [0..<n];
          norms1 = map (\<lambda>x. if x = Fin 0 then Fin 1 else x) norms
      in map (\<lambda>row. map2 fdiv row norms1) m)"

definition distance :: "npfloat list \<Rightarrow> npfloat list \<Rightarrow> npfloat" where
  "distance row point =
     fsqrt (np_sum (map2 (\<lambda>x y. fmul (fsub x y) (fsub x y)) row point))"

definition topsis_calculate_scores ::
  "ndarray \<Rightarrow> npfloat list \<Rightarrow> criteria_type list \<Rightarrow> error + npfloat list" where
  "topsis_calculate_scores decision_matrix weights criteria_types =
     (let n = length criteria_types in
      if \<not> well_shaped (as_float decision_matrix) n \<or> length weights \<noteq> n then Inl ShapeError
      else
        let normalized_matrix = topsis_normalize_matrix (as_float decision_matrix) n;
            weighted_matrix = map (\<lambda>row. map2 fmul row weights) normalized_matrix;
            ideal_solution = map (\<lambda>j. if criteria_types ! j = BENEFIT
                then np_max (column weighted_matrix j) else np_min (column weighted_matrix j)) [0..<n];
            negative_ideal_solution = map (\<lambda>j. if criteria_types ! j = BENEFIT
                then np_min (column weighted_matrix j) else np_max (column weighted_matrix j)) [0..<n]
        in Inr (map (\<lambda>row.
              let distance_to_ideal = distance row ideal_solution;
                  distance_to_negative_ideal = distance row negative_ideal_solution
              in nan_to_num (fdiv distance_to_negative_ideal
                   (fadd distance_to_ideal distance_to_negative_ideal))) weighted_matrix))"

subsection \<open>MCDMEngine\<close>

definition rectangular :: "'a list list \<Rightarrow> bool" where
  "rectangular m = (case m of [] \<Rightarrow> True | r # rs \<Rightarrow> list_all (\<lambda>q. length q = length r) rs)"

definition evaluate_alternatives ::
  "pynum list list \<Rightarrow> criteria list \<Rightarrow> string \<Rightarrow> error + (npfloat list \<times> (string \<rightharpoonup> npfloat))" where
  "evaluate_alternatives decision_matrix crit method =
     (if \<not> rectangular decision_matrix then Inl ShapeError
      else
        let matrix = np_array decision_matrix;
            weights0 = map (\<lambda>c. Fin (cr_weight c)) crit;
            criteria_types = map cr_type crit;
            criteria_names = map cr_name crit;
            weights = map (\<lambda>w. fdiv w (np_sum weights0)) weights0;
            scores = (if py_upper method = ''SAW''
                        then saw_calculate_scores matrix weights criteria_types
                      else if py_upper method = ''TOPSIS''
                        then topsis_calculate_scores matrix weights criteria_types
                      else Inl UnsupportedMethod)
        in case scores of
             Inl e \<Rightarrow> Inl e
           | Inr sc \<Rightarrow> Inr (sc, py_dict (zip criteria_names weights)))"

section \<open>Scheduling engine (scheduling\_engine.py)\<close>

definition default_criteria :: "criteria list" where
  "default_criteria =
     [\<lparr>cr_id = 1, cr_name = ''expertise_match'', cr_weight = 0.30, cr_type = BENEFIT,
        cr_description = Some ''Kesesuaian keahlian penguji dengan bidang skripsi''\<rparr>,
      \<lparr>cr_id = 2, cr_name = ''competency_score'', cr_weight = 0.25, cr_type = BENEFIT,
        cr_description = Some ''Tingkat kompetensi penguji''\<rparr>,
      \<lparr>cr_id = 3, cr_name = ''availability_score'', cr_weight = 0.20, cr_type = BENEFIT,
        cr_description = Some ''Fleksibilitas ketersediaan waktu penguji''\<rparr>,
      \<lparr>cr_id = 4, cr_name = ''workload'', cr_weight = 0.15, cr_type = COST,
        cr_description = Some ''Beban kerja penguji saat ini''\<rparr>,
      \<lparr>cr_id = 5, cr_name = ''experience_years'', cr_weight = 0.10, cr_type = BENEFIT,
        cr_description = Some ''Pengalaman tahun menguji''\<rparr>]"

definition calculate_expertise_match :: "examiner \<Rightarrow> student \<Rightarrow> real" where
  "calculate_expertise_match ex stu =
     (let student_field_keywords = py_split (py_lower (st_thesis_field stu));
          examiner_expertise = map py_lower (ex_expertise ex);
          matches = length (filter (\<lambda>keyword.
              list_ex (\<lambda>expertise. str_in keyword expertise \<or> str_in expertise keyword)
                examiner_expertise) student_field_keywords);
          max_possible_matches = length student_field_keywords
      in if max_possible_matches > 0
         then min (real matches / real max_possible_matches) 1 else 0)"

record examiner_evaluation =
  ee_examiner_id :: int
  ee_student_id :: int
  compatibility_score :: real
  expertise_match :: real
  workload_factor :: real
  availability_factor :: real

text \<open>The field constraints of \<open>ExaminerEvaluation\<close> (\<open>ge=0, le=1\<close> on the four scores),
  checked when the object is built.\<close>

definition unit_interval :: "real \<Rightarrow> bool" where
  "unit_interval x = (0 \<le> x \<and> x \<le> 1)"

definition evaluate_examiner_for_student ::
  "examiner \<Rightarrow> student \<Rightarrow> int \<Rightarrow> error + examiner_evaluation" where
  "evaluate_examiner_for_student ex stu tid =
     (let em = calculate_expertise_match ex stu;
          availability = (if tid \<in> set (ex_available_timeslots ex) then 1 else 0);
          max_workload = 10;
          wf = max 0 ((max_workload - real_of_int (ex_workload ex)) / max_workload)
      in if unit_interval em \<and> unit_interval wf \<and> unit_interval availability
         then Inr \<lparr>ee_examiner_id = ex_id ex, ee_student_id = st_id stu,
                   compatibility_score = em, expertise_match = em,
                   workload_factor = wf, availability_factor = availability\<rparr>
         else Inl ValidationError)"

text \<open>One row of the decision matrix: the inner loop over the criteria.\<close>

definition matrix_row :: "criteria list \<Rightarrow> examiner \<Rightarrow> examiner_evaluation \<Rightarrow> pynum list" where
  "matrix_row crit ex evaluation = map (\<lambda>criterion.
       if cr_name criterion = ''expertise_match'' then PyFloat (Fin (expertise_match evaluation))
       else if cr_name criterion = ''competency_score'' then PyFloat (Fin (ex_competency_score ex))
       else if cr_name criterion = ''availability_score'' then PyFloat (Fin (ex_availability_score ex))
       else if cr_name criterion = ''workload'' then PyInt (ex_workload ex)
       else if cr_name criterion = ''experience_years'' then PyInt (ex_experience_years ex)
       else PyFloat (Fin 0.5)) crit"

text \<open>The loop that builds the decision matrix over the regular examiners.\<close>

fun decision_rows ::
  "student \<Rightarrow> int \<Rightarrow> criteria list \<Rightarrow> examiner list \<Rightarrow> error + pynum list list" where
  "decision_rows stu tid crit [] = Inr []"
| "decision_rows stu tid crit (ex # exs) =
     (case evaluate_examiner_for_student ex stu tid of
        Inl e \<Rightarrow> Inl e
      | Inr evaluation \<Rightarrow>
          (case decision_rows stu tid crit exs of
             Inl e \<Rightarrow> Inl e
           | Inr rows \<Rightarrow> Inr (matrix_row crit ex evaluation # rows)))"

text \<open>\<open>examiner_scores.sort(key=lambda x: x[1], reverse=True)\<close>: a stable sort, descending by
  score, using only the comparison \<open><\<close> of the scores. (Where a score is \<open>nan\<close> the order
  CPython returns depends on its merge strategy; no statement below depends on the order.)\<close>

fun insert_desc :: "('a \<times> npfloat) \<Rightarrow> ('a \<times> npfloat) list \<Rightarrow> ('a \<times> npfloat) list" where
  "insert_desc x [] = [x]"
| "insert_desc x (y # ys) = (if flt (snd x) (snd y) then y # insert_desc x ys else x # y # ys)"

fun sort_desc :: "('a \<times> npfloat) list \<Rightarrow> ('a \<times> npfloat) list" where
  "sort_desc [] = []"
| "sort_desc (x # xs) = insert_desc x (sort_desc xs)"

text \<open>The slice \<open>xs[:k]\<close>; a negative \<open>k\<close> counts from the end.\<close>

definition py_take :: "int \<Rightarrow> 'a list \<Rightarrow> 'a list" where
  "py_take k xs = (if 0 \<le> k then take (nat k) xs else take (length xs - nat (- k)) xs)"

definition select_best_examiners ::
  "student \<Rightarrow> examiner list \<Rightarrow> int \<Rightarrow> int \<Rightarrow> criteria list \<Rightarrow> string
    \<Rightarrow> error + (examiner \<times> npfloat) list" where
  "select_best_examiners stu examiners tid required_count crit method =
     (let available_examiners = filter (\<lambda>e. tid \<in> set (ex_available_timeslots e)) examiners
      in if int (length available_examiners) < required_count then Inr []
      else
        let regular_examiners = filter (\<lambda>e. ex_id e \<noteq> st_supervisor_id stu) available_examiners
        in case find (\<lambda>e. ex_id e = st_supervisor_id stu) available_examiners of
             None \<Rightarrow> Inr []
           | Some supervisor \<Rightarrow>
               (case decision_rows stu tid crit regular_examiners of
                  Inl e \<Rightarrow> Inl e
                | Inr decision_matrix \<Rightarrow>
                    if decision_matrix = [] then Inr []
                    else
                      (case evaluate_alternatives decision_matrix crit method of
                         Inl e \<Rightarrow> Inl e
                       | Inr (scores, weights_dict) \<Rightarrow>
                           let examiner_scores = sort_desc (zip regular_examiners scores);
                               selected_regular = py_take (required_count - 1) examiner_scores
                           in (case evaluate_examiner_for_student supervisor stu tid of
                                 Inl e \<Rightarrow> Inl e
                               | Inr supervisor_evaluation \<Rightarrow>
                                   Inr ((supervisor, Fin 0.9) # selected_regular)))))"

definition evaluate_room_suitability :: "room \<Rightarrow> student \<Rightarrow> real" where
  "evaluate_room_suitability rm stu =
     (let required_capacity = 10;
          capacity_factor = min (real_of_int (rm_capacity rm) / required_capacity) 1;
          quality_factor = rm_quality_score rm / 5;
          facility_score = real (length (rm_facilities rm)) / 10;
          facility_factor = min facility_score 1
      in capacity_factor * 0.5 + quality_factor * 0.3 + facility_factor * 0.2)"

fun check_scheduling_constraints :: "schedule_result list \<Rightarrow> schedule_result \<Rightarrow> bool" where
  "check_scheduling_constraints [] new_exam = True"
| "check_scheduling_constraints (existing_exam # rest) new_exam =
     (if timeslot_id existing_exam = timeslot_id new_exam then
        (if room_id existing_exam = room_id new_exam then False
         else if set (assigned_examiners existing_exam) \<inter> set (assigned_examiners new_exam) \<noteq> {}
           then False
         else check_scheduling_constraints rest new_exam)
      else check_scheduling_constraints rest new_exam)"

text \<open>What one run of \<open>generate_schedule\<close> holds and changes: its three local accumulators,
  and the examiner objects of the caller, whose workload it updates in place.\<close>

record alloc_state =
  sched :: "schedule_result list"
  infeasible :: "int list"
  total :: npfloat
  examiners_now :: "examiner list"

text \<open>The candidate built for one session, time slot and room.\<close>

definition potential_result ::
  "exam_session \<Rightarrow> student \<Rightarrow> int \<Rightarrow> room \<Rightarrow> (examiner \<times> npfloat) list \<Rightarrow> schedule_result" where
  "potential_result session stu tid rm selected_examiners =
     (let room_score = Fin (evaluate_room_suitability rm stu);
          examiner_ids = map (\<lambda>e. ex_id (fst e)) selected_examiners;
          examiner_score = np_mean (map snd selected_examiners);
          combined_score = fadd (fmul examiner_score (Fin 0.7)) (fmul room_score (Fin 0.3))
      in \<lparr>exam_id = es_id session, student_name = st_name stu, timeslot_id = tid,
          room_id = rm_id rm, assigned_examiners = examiner_ids, total_score = combined_score,
          criteria_scores = py_dict [(''examiner_quality'', examiner_score),
            (''room_suitability'', room_score), (''combined_score'', combined_score)]\<rparr>)"

text \<open>The loop over the rooms; \<open>best\<close> is the pair \<open>(best_schedule, best_score)\<close>.\<close>

fun room_loop ::
  "schedule_result list \<Rightarrow> exam_session \<Rightarrow> student \<Rightarrow> int \<Rightarrow> (examiner \<times> npfloat) list
    \<Rightarrow> room list \<Rightarrow> schedule_result option \<times> npfloat \<Rightarrow> schedule_result option \<times> npfloat" where
  "room_loop schedule0 session stu tid selected [] best = best"
| "room_loop schedule0 session stu tid selected (rm # rms) best =
     (let candidate = potential_result session stu tid rm selected
      in room_loop schedule0 session stu tid selected rms
           (if check_scheduling_constraints schedule0 candidate
               \<and> fgt (total_score candidate) (snd best)
            then (Some candidate, total_score candidate) else best))"

text \<open>The loop over the time slots.\<close>

fun timeslot_loop ::
  "alloc_state \<Rightarrow> exam_session \<Rightarrow> student \<Rightarrow> room list \<Rightarrow> criteria list \<Rightarrow> string
    \<Rightarrow> time_slot list \<Rightarrow> schedule_result option \<times> npfloat
    \<Rightarrow> error + (schedule_result option \<times> npfloat)" where
  "timeslot_loop s session stu rooms crit method [] best = Inr best"
| "timeslot_loop s session stu rooms crit method (ts # tss) best =
     (case select_best_examiners stu (examiners_now s) (ts_id ts)
             (es_required_examiners session) crit method of
        Inl e \<Rightarrow> Inl e
      | Inr selected_examiners \<Rightarrow>
          if int (length selected_examiners) < es_required_examiners session
          then timeslot_loop s session stu rooms crit method tss best
          else timeslot_loop s session stu rooms crit method tss
                 (room_loop (sched s) session stu (ts_id ts) selected_examiners rooms best))"

text \<open>\<open>examiner.workload += 1\<close> on the first examiner of the list with the given id.\<close>

fun bump_first :: "int \<Rightarrow> examiner list \<Rightarrow> examiner list" where
  "bump_first i [] = []"
| "bump_first i (e # es) =
     (if ex_id e = i then e\<lparr>ex_workload := ex_workload e + 1\<rparr> # es else e # bump_first i es)"

fun update_workloads :: "int list \<Rightarrow> examiner list \<Rightarrow> examiner list" where
  "update_workloads [] examiners = examiners"
| "update_workloads (i # ids) examiners = update_workloads ids (bump_first i examiners)"

text \<open>\<open>student_lookup = {s.id: s for s in students}\<close>.\<close>

definition student_lookup :: "student list \<Rightarrow> (int \<rightharpoonup> student)" where
  "student_lookup students = py_dict (map (\<lambda>x. (st_id x, x)) students)"

text \<open>The body of the loop over the sorted sessions.\<close>

definition process_session ::
  "student list \<Rightarrow> room list \<Rightarrow> time_slot list \<Rightarrow> criteria list \<Rightarrow> string
    \<Rightarrow> alloc_state \<Rightarrow> exam_session \<Rightarrow> error + alloc_state" where
  "process_session students rooms timeslots crit method s session =
     (case student_lookup students (es_student_id session) of
        None \<Rightarrow> Inr (s\<lparr>infeasible := infeasible s @ [es_id session]\<rparr>)
      | Some stu \<Rightarrow>
          (case timeslot_loop s session stu rooms crit method timeslots (None, Fin (- 1)) of
             Inl e \<Rightarrow> Inl e
           | Inr (best_schedule, best_score) \<Rightarrow>
               (case best_schedule of
                  Some b \<Rightarrow> Inr (s\<lparr>sched := sched s @ [b],
                                   total := fadd (total s) best_score,
                                   examiners_now := update_workloads (assigned_examiners b)
                                                      (examiners_now s)\<rparr>)
                | None \<Rightarrow> Inr (s\<lparr>infeasible := infeasible s @ [es_id session]\<rparr>))))"

text \<open>The loop over the sessions. An exception leaves the loop: the result is then the
  state reached when it was raised, and the exception.\<close>

fun session_loop ::
  "student list \<Rightarrow> room list \<Rightarrow> time_slot list \<Rightarrow> criteria list \<Rightarrow> string
    \<Rightarrow> alloc_state \<Rightarrow> exam_session list \<Rightarrow> alloc_state \<times> error option" where
  "session_loop students rooms timeslots crit method s [] = (s, None)"
| "session_loop students rooms timeslots crit method s (session # rest) =
     (case process_session students rooms timeslots crit method s session of
        Inl e \<Rightarrow> (s, Some e)
      | Inr s' \<Rightarrow> session_loop students rooms timeslots crit method s' rest)"

text \<open>\<open>generate_schedule\<close>. The first component is what the call returns or raises, the
  second the state of the run at that moment; its \<open>examiners_now\<close> are the caller's examiner
  objects as the call leaves them.\<close>

definition generate_schedule ::
  "student list \<Rightarrow> examiner list \<Rightarrow> room list \<Rightarrow> time_slot list \<Rightarrow> exam_session list
    \<Rightarrow> criteria list option \<Rightarrow> string \<Rightarrow> (error + dss_solution) \<times> alloc_state" where
  "generate_schedule students examiners rooms timeslots exam_sessions criteria_opt method =
     (let crit = (case criteria_opt of None \<Rightarrow> default_criteria | Some c \<Rightarrow> c);
          init = \<lparr>sched = [], infeasible = [], total = Fin 0, examiners_now = examiners\<rparr>;
          sorted_sessions = sort_key (\<lambda>x. - es_priority x) exam_sessions;
          (s, raised) = session_loop students rooms timeslots crit method init sorted_sessions
      in case raised of
           Some e \<Rightarrow> (Inl e, s)
         | None \<Rightarrow>
             let avg_satisfaction =
                   (if sched s \<noteq> [] then fdiv (total s) (Fin (real (length (sched s)))) else Fin 0)
             in (case evaluate_alternatives [replicate (length crit) (PyInt 1)] crit method of
                   Inl e \<Rightarrow> (Inl e, s)
                 | Inr (scores, weights) \<Rightarrow>
                     (Inr \<lparr>schedule = sched s, method_used = method,
                           total_satisfaction = avg_satisfaction, criteria_weights = weights,
                           infeasible_exams = infeasible s\<rparr>, s)))"

definition analyze_schedule_quality :: "dss_solution \<Rightarrow> (string \<rightharpoonup> npfloat)" where
  "analyze_schedule_quality solution =
     (if schedule solution = [] then py_dict [(''overall_quality'', Fin 0)]
      else
        let scores = map total_score (schedule solution)
        in py_dict
             [(''overall_quality'', total_satisfaction solution),
              (''average_score'', np_mean scores),
              (''min_score'', np_min scores),
              (''max_score'', np_max scores),
              (''score_std'', np_std scores),
              (''scheduled_exams'', Fin (real (length (schedule solution)))),
              (''infeasible_exams'', Fin (real (length (infeasible_exams solution)))),
              (''success_rate'', Fin (real (length (schedule solution))
                 / real (length (schedule solution) + length (infeasible_exams solution))))])"

section \<open>The conflict invariant, in the words of the specification\<close>

text \<open>Two committed assignments conflict when they share a time slot and have the same room
  or a common examiner. A schedule is conflict-free when no two assignments at different
  positions conflict.\<close>

definition conflict :: "schedule_result \<Rightarrow> schedule_result \<Rightarrow> bool" where
  "conflict a b = (timeslot_id a = timeslot_id b
     \<and> (room_id a = room_id b \<or> set (assigned_examiners a) \<inter> set (assigned_examiners b) \<noteq> {}))"

definition conflict_free :: "schedule_result list \<Rightarrow> bool" where
  "conflict_free xs = (\<forall>i < length xs. \<forall>j < length xs. i \<noteq> j \<longrightarrow> \<not> conflict (xs ! i) (xs ! j))"

section \<open>One committed step\<close>

text \<open>What one iteration of the session loop does when it raises nothing and commits an
  assignment: the student is known, and some time slot and room give a selection that passes
  the constraint check.\<close>

definition committed_step ::
  "student list \<Rightarrow> room list \<Rightarrow> time_slot list \<Rightarrow> criteria list \<Rightarrow> string
    \<Rightarrow> alloc_state \<Rightarrow> exam_session \<Rightarrow> alloc_state \<Rightarrow> bool" where
  "committed_step students rooms timeslots crit method s ses s' =
     (\<exists>stu. \<exists>ts \<in> set timeslots. \<exists>rm \<in> set rooms. \<exists>sel.
        student_lookup students (es_student_id ses) = Some stu
      \<and> select_best_examiners stu (examiners_now s) (ts_id ts) (es_required_examiners ses) crit method
          = Inr sel
      \<and> sel \<noteq> []
      \<and> check_scheduling_constraints (sched s) (potential_result ses stu (ts_id ts) rm sel)
      \<and> s' = s\<lparr>sched := sched s @ [potential_result ses stu (ts_id ts) rm sel],
               total := fadd (total s) (total_score (potential_result ses stu (ts_id ts) rm sel)),
               examiners_now := update_workloads (map (\<lambda>e. ex_id (fst e)) sel) (examiners_now s)\<rparr>)"

text \<open>An assignment is supervised when it belongs to a session of the list whose student is
  known, carries that student's name, and has the student's supervisor among its examiners.\<close>

definition supervised ::
  "student list \<Rightarrow> exam_session list \<Rightarrow> schedule_result \<Rightarrow> bool" where
  "supervised students exam_sessions r =
     (\<exists>ses \<in> set exam_sessions. \<exists>stu.
        exam_id r = es_id ses
      \<and> student_lookup students (es_student_id ses) = Some stu
      \<and> student_name r = st_name stu
      \<and> st_supervisor_id stu \<in> set (assigned_examiners r))"

section \<open>Concrete inputs\<close>

text \<open>A solution with nothing committed and nothing infeasible, and one with one committed
  and one infeasible exam.\<close>

definition sol_empty :: dss_solution where
  "sol_empty = \<lparr>schedule = [], method_used = ''SAW'', total_satisfaction = Fin 0,
     criteria_weights = Map.empty, infeasible_exams = []\<rparr>"

definition sol_one :: dss_solution where
  "sol_one = \<lparr>schedule = [\<lparr>exam_id = 1, student_name = ''A'', timeslot_id = 1, room_id = 1,
       assigned_examiners = [1, 2, 3], total_score = Fin (4 / 5), criteria_scores = Map.empty\<rparr>],
     method_used = ''SAW'', total_satisfaction = Fin (4 / 5),
     criteria_weights = Map.empty, infeasible_exams = [7]\<rparr>"

text \<open>A small run: two students with supervisors 1 and 3, four examiners available at the
  single time slot, two rooms, and three sessions, the last one for an unknown student.\<close>

definition demo_students :: "student list" where
  "demo_students =
     [\<lparr>st_id = 1, st_name = ''Ani'', st_nim = ''001'', st_thesis_title = ''T1'',
        st_thesis_field = ''machine learning'', st_supervisor_id = 1, st_gpa = 3.5,
        st_thesis_quality = 4, st_preferred_timeslots = Some []\<rparr>,
      \<lparr>st_id = 2, st_name = ''Budi'', st_nim = ''002'', st_thesis_title = ''T2'',
        st_thesis_field = ''networks'', st_supervisor_id = 3, st_gpa = 3.2,
        st_thesis_quality = 3, st_preferred_timeslots = Some []\<rparr>]"

definition demo_examiner :: "int \<Rightarrow> real \<Rightarrow> int \<Rightarrow> examiner" where
  "demo_examiner i competency load =
     \<lparr>ex_id = i, ex_name = ''E'', ex_title = ''Dr'', ex_expertise = [''Machine Learning''],
      ex_experience_years = 5, ex_workload = load, ex_availability_score = 4,
      ex_competency_score = competency, ex_available_timeslots = [1]\<rparr>"

definition demo_examiners :: "examiner list" where
  "demo_examiners = [demo_examiner 1 4 1, demo_examiner 2 5 1, demo_examiner 3 4 1, demo_examiner 4 4 1]"

definition demo_rooms :: "room list" where
  "demo_rooms =
     [\<lparr>rm_id = 1, rm_name = ''R1'', rm_capacity = 20, rm_facilities = [''projector''],
        rm_location = ''A'', rm_quality_score = 5\<rparr>,
      \<lparr>rm_id = 2, rm_name = ''R2'', rm_capacity = 20, rm_facilities = [''projector''],
        rm_location = ''A'', rm_quality_score = 4\<rparr>]"

definition demo_timeslots :: "time_slot list" where
  "demo_timeslots =
     [\<lparr>ts_id = 1, ts_day = ''Monday'', ts_start_time = ''08:00'', ts_end_time = ''10:00'',
        ts_session = ''Morning''\<rparr>]"

definition demo_sessions :: "exam_session list" where
  "demo_sessions =
     [\<lparr>es_id = 10, es_student_id = 1, es_duration = 120, es_required_examiners = 2, es_priority = 1\<rparr>,
      \<lparr>es_id = 11, es_student_id = 2, es_duration = 120, es_required_examiners = 2, es_priority = 1 / 2\<rparr>,
      \<lparr>es_id = 12, es_student_id = 99, es_duration = 120, es_required_examiners = 2, es_priority = 1 / 5\<rparr>]"

definition demo_criteria :: "criteria list" where
  "demo_criteria =
     [\<lparr>cr_id = 1, cr_name = ''competency_score'', cr_weight = 1 / 2, cr_type = BENEFIT,
        cr_description = None\<rparr>,
      \<lparr>cr_id = 2, cr_name = ''workload'', cr_weight = 1 / 2, cr_type = COST,
        cr_description = None\<rparr>]"

section \<open>Properties\<close>

subsection \<open>Arithmetic on finite values\<close>

lemma np_sum_Fin: "np_sum (map Fin rs) = Fin (sum_list rs)"
  by (induction rs) simp_all

lemma np_mean_Fin: "rs \<noteq> [] \<Longrightarrow> np_mean (map Fin rs) = Fin (sum_list rs / real (length rs))"
  by (simp add: np_mean_def np_sum_Fin)

lemma fmax2_Fin: "fmax2 (Fin a) (Fin b) = Fin (max a b)"
  by (simp add: fmax2_def max_def)

lemma fmin2_Fin: "fmin2 (Fin a) (Fin b) = Fin (min a b)"
  by (auto simp: fmin2_def min_def)

lemma np_max_Fin: "rs \<noteq> [] \<Longrightarrow> np_max (map Fin rs) = Fin (Max (set rs))"
proof (induction rs rule: induct_list012)
  case (3 x y zs)
  then have ih: "np_max (map Fin (y # zs)) = Fin (Max (set (y # zs)))" by simp
  have "np_max (map Fin (x # y # zs)) = fmax2 (Fin x) (np_max (map Fin (y # zs)))" by simp
  also have "\<dots> = Fin (max x (Max (set (y # zs))))" by (simp only: ih fmax2_Fin)
  also have "max x (Max (set (y # zs))) = Max (set (x # y # zs))" by simp
  finally show ?case .
qed simp_all

lemma np_min_Fin: "rs \<noteq> [] \<Longrightarrow> np_min (map Fin rs) = Fin (Min (set rs))"
proof (induction rs rule: induct_list012)
  case (3 x y zs)
  then have ih: "np_min (map Fin (y # zs)) = Fin (Min (set (y # zs)))" by simp
  have "np_min (map Fin (x # y # zs)) = fmin2 (Fin x) (np_min (map Fin (y # zs)))" by simp
  also have "\<dots> = Fin (min x (Min (set (y # zs))))" by (simp only: ih fmin2_Fin)
  also have "min x (Min (set (y # zs))) = Min (set (x # y # zs))" by simp
  finally show ?case .
qed simp_all

lemma np_std_Fin:
  assumes "rs \<noteq> []"
  shows "np_std (map Fin rs) =
    Fin (sqrt (sum_list (map (\<lambda>r. (r - sum_list rs / real (length rs))\<^sup>2) rs) / real (length rs)))"
proof -
  let ?m = "sum_list rs / real (length rs)"
  let ?d = "map (\<lambda>r. (r - ?m)\<^sup>2) rs"
  have sq: "map (\<lambda>x. fmul (fsub x (Fin ?m)) (fsub x (Fin ?m))) (map Fin rs) = map Fin ?d"
    by (simp add: fsub_def power2_eq_square)
  have mean: "np_mean (map Fin ?d) = Fin (sum_list ?d / real (length rs))"
    using assms np_mean_Fin[of ?d] by simp
  have nonneg: "0 \<le> sum_list ?d / real (length rs)"
    by (intro divide_nonneg_nonneg sum_list_nonneg) auto
  have "np_std (map Fin rs) = fsqrt (np_mean (map Fin ?d))"
    unfolding np_std_def Let_def np_mean_Fin[OF assms] sq ..
  also have "\<dots> = Fin (sqrt (sum_list ?d / real (length rs)))"
    unfolding mean using nonneg by simp
  finally show ?thesis .
qed

subsection \<open>Schedule quality analysis\<close>

text \<open>Claim C3 as stated fails: on a solution with no committed exam, hence also on one
  with zero items in total, \<open>analyze_schedule_quality\<close> returns the single entry
  \<open>overall_quality\<close>; there is no success rate of 0, and no count.\<close>

theorem analyze_empty_counterexample:
  "analyze_schedule_quality sol_empty ''success_rate'' = None
   \<and> analyze_schedule_quality sol_empty ''success_rate'' \<noteq> Some (Fin 0)
   \<and> analyze_schedule_quality sol_empty ''scheduled_exams'' = None"
  by (simp add: analyze_schedule_quality_def py_dict_def sol_empty_def)

text \<open>Claim C3, amended. With no committed exam the analysis is exactly
  \<open>{overall_quality: 0.0}\<close>. With at least one committed exam it holds the overall quality,
  the mean, minimum, maximum and standard deviation of the committed scores as numpy computes
  them, the two counts, and the success rate committed / (committed + infeasible), whose
  divisor is positive; when all committed scores are finite, the four statistics are the
  arithmetic mean, the least and the greatest score and the population standard deviation.\<close>

theorem analyze_schedule_quality_metrics:
  "(schedule sol = [] \<longrightarrow>
      analyze_schedule_quality sol = [''overall_quality'' \<mapsto> Fin 0])
   \<and> (schedule sol \<noteq> [] \<longrightarrow>
      analyze_schedule_quality sol ''overall_quality'' = Some (total_satisfaction sol)
    \<and> analyze_schedule_quality sol ''average_score'' = Some (np_mean (map total_score (schedule sol)))
    \<and> analyze_schedule_quality sol ''min_score'' = Some (np_min (map total_score (schedule sol)))
    \<and> analyze_schedule_quality sol ''max_score'' = Some (np_max (map total_score (schedule sol)))
    \<and> analyze_schedule_quality sol ''score_std'' = Some (np_std (map total_score (schedule sol)))
    \<and> analyze_schedule_quality sol ''scheduled_exams'' = Some (Fin (real (length (schedule sol))))
    \<and> analyze_schedule_quality sol ''infeasible_exams''
         = Some (Fin (real (length (infeasible_exams sol))))
    \<and> analyze_schedule_quality sol ''success_rate''
         = Some (Fin (real (length (schedule sol))
              / (real (length (schedule sol)) + real (length (infeasible_exams sol)))))
    \<and> 0 < real (length (schedule sol)) + real (length (infeasible_exams sol))
    \<and> (\<forall>rs. map total_score (schedule sol) = map Fin rs \<longrightarrow>
          np_mean (map total_score (schedule sol)) = Fin (sum_list rs / real (length rs))
        \<and> np_min (map total_score (schedule sol)) = Fin (Min (set rs))
        \<and> np_max (map total_score (schedule sol)) = Fin (Max (set rs))
        \<and> np_std (map total_score (schedule sol))
            = Fin (sqrt (sum_list (map (\<lambda>r. (r - sum_list rs / real (length rs))\<^sup>2) rs)
                / real (length rs)))))"
proof (intro conjI impI allI)
  assume "schedule sol = []"
  then show "analyze_schedule_quality sol = [''overall_quality'' \<mapsto> Fin 0]"
    by (simp add: analyze_schedule_quality_def py_dict_def)
next
  fix rs assume ne: "schedule sol \<noteq> []" and fin: "map total_score (schedule sol) = map Fin rs"
  from ne fin have rs: "rs \<noteq> []" by auto
  show "np_mean (map total_score (schedule sol)) = Fin (sum_list rs / real (length rs))"
    unfolding fin by (rule np_mean_Fin[OF rs])
  show "np_min (map total_score (schedule sol)) = Fin (Min (set rs))"
    unfolding fin by (rule np_min_Fin[OF rs])
  show "np_max (map total_score (schedule sol)) = Fin (Max (set rs))"
    unfolding fin by (rule np_max_Fin[OF rs])
  show "np_std (map total_score (schedule sol))
      = Fin (sqrt (sum_list (map (\<lambda>r. (r - sum_list rs / real (length rs))\<^sup>2) rs)
          / real (length rs)))"
    unfolding fin by (rule np_std_Fin[OF rs])
next
  assume "schedule sol \<noteq> []"
  then have "0 < length (schedule sol)" by simp
  then show "0 < real (length (schedule sol)) + real (length (infeasible_exams sol))"
    by linarith
qed (simp_all add: analyze_schedule_quality_def py_dict_def Let_def)

theorem analyze_schedule_quality_metrics_witness:
  "schedule sol_one \<noteq> []
   \<and> schedule sol_empty = []
   \<and> analyze_schedule_quality sol_empty = [''overall_quality'' \<mapsto> Fin 0]
   \<and> analyze_schedule_quality sol_one ''success_rate'' = Some (Fin (1 / 2))
   \<and> analyze_schedule_quality sol_one ''average_score'' = Some (Fin (4 / 5))
   \<and> analyze_schedule_quality sol_one ''min_score'' = Some (Fin (4 / 5))"
proof -
  have ne: "schedule sol_one \<noteq> []" and e: "schedule sol_empty = []"
    by (simp_all add: sol_one_def sol_empty_def)
  have fin: "map total_score (schedule sol_one) = map Fin [4 / 5]"
    by (simp add: sol_one_def)
  have len: "length (schedule sol_one) = 1" "length (infeasible_exams sol_one) = 1"
    by (simp_all add: sol_one_def)
  note m = analyze_schedule_quality_metrics[of sol_one, THEN conjunct2, THEN mp, OF ne]
  note m0 = analyze_schedule_quality_metrics[of sol_empty, THEN conjunct1, THEN mp, OF e]
  from m have sr: "analyze_schedule_quality sol_one ''success_rate'' = Some (Fin (1 / 2))"
    unfolding len by simp
  from m have "\<forall>rs. map total_score (schedule sol_one) = map Fin rs \<longrightarrow>
      np_mean (map total_score (schedule sol_one)) = Fin (sum_list rs / real (length rs))
      \<and> np_min (map total_score (schedule sol_one)) = Fin (Min (set rs))"
    by blast
  from this[THEN spec, of "[4 / 5]"] fin
  have "np_mean (map total_score (schedule sol_one)) = Fin (4 / 5)"
    and "np_min (map total_score (schedule sol_one)) = Fin (4 / 5)" by simp_all
  with m have "analyze_schedule_quality sol_one ''average_score'' = Some (Fin (4 / 5))"
    and "analyze_schedule_quality sol_one ''min_score'' = Some (Fin (4 / 5))" by simp_all
  with sr m0 ne e show ?thesis by simp
qed

subsection \<open>Consistency ratio of the all-ones matrix\<close>

text \<open>The all-ones matrix of size \<open>n\<close> has the eigenvalue \<open>n\<close>, with the all-ones vector. With
  that eigenvalue the ratio is 0 from size 3 on.\<close>

lemma ones_eigenpair: "0 < n \<Longrightarrow> is_eigenpair (ones n) (real n) (replicate n 1)"
  by (cases n) (simp_all add: is_eigenpair_def ones_def mat_vec_def sum_list_replicate)

lemma consistency_ratio_size1: "consistency_ratio 1 lam \<noteq> Fin 0"
  by (cases lam) (simp_all add: consistency_ratio_def fsub_def random_index_def signed_inf_def)

lemma consistency_ratio_exact: "3 \<le> n \<Longrightarrow> consistency_ratio n (Fin (real n)) = Fin 0"
  by (simp add: consistency_ratio_def fsub_def random_index_def signed_inf_def)

text \<open>Claim C4 at sizes 1 and 2: with the exact principal eigenvalue the code computes
  \<open>0.0 / 0\<close>, once through \<open>n - 1 = 0\<close> and once through the table entry 0, and the
  consistency ratio is \<open>nan\<close>, not 0.\<close>

theorem ahp_all_ones_ratio_nan:
  "snd (calculate_weights (\<lambda>m. (Fin 1, [Fin 1])) (ones 1)) = NaN
   \<and> snd (calculate_weights (\<lambda>m. (Fin 2, [Fin 1, Fin 1])) (ones 2)) = NaN"
  by (simp add: calculate_weights_def ones_def consistency_ratio_def fsub_def random_index_def
        signed_inf_def)

subsection \<open>SAW normalisation\<close>

text \<open>Claim C7 on an integer array: the benefit column \<open>[1, 2]\<close> is normalized to \<open>[0, 1]\<close>,
  not to \<open>[0.5, 1]\<close>, because the result array inherits the integer dtype; the same column
  as floats is normalized as the claim says.\<close>

theorem saw_normalize_int_matrix_truncates:
  "saw_normalize_matrix (np_array [[PyInt 1], [PyInt 2]]) [BENEFIT] = Inr (IntArr [[0], [1]])
   \<and> saw_normalize_matrix (np_array [[PyFloat (Fin 1)], [PyFloat (Fin 2)]]) [BENEFIT]
       = Inr (FloatArr [[Fin (1 / 2)], [Fin 1]])"
  by (simp add: saw_normalize_matrix_def np_array_def well_shaped_def normalize_float_def
        from_columns_def column_def fne_def fmax2_def cast_int64_def)

subsection \<open>The loops of the allocator\<close>

lemma potential_result_empty: "total_score (potential_result ses stu tid rm []) = NaN"
  by (simp add: potential_result_def np_mean_def signed_inf_def)

lemma potential_result_simps:
  "exam_id (potential_result ses stu tid rm sel) = es_id ses"
  "student_name (potential_result ses stu tid rm sel) = st_name stu"
  "timeslot_id (potential_result ses stu tid rm sel) = tid"
  "room_id (potential_result ses stu tid rm sel) = rm_id rm"
  "assigned_examiners (potential_result ses stu tid rm sel) = map (\<lambda>e. ex_id (fst e)) sel"
  by (simp_all add: potential_result_def Let_def)

lemma fgt_NaN: "\<not> fgt NaN x"
  by (cases x) (simp_all add: fgt_def)

lemma room_loop_cases:
  "room_loop sch ses stu tid sel rooms best = best' \<Longrightarrow>
   best' = best \<or> (\<exists>rm \<in> set rooms.
      best' = (Some (potential_result ses stu tid rm sel),
               total_score (potential_result ses stu tid rm sel))
      \<and> check_scheduling_constraints sch (potential_result ses stu tid rm sel)
      \<and> total_score (potential_result ses stu tid rm sel) \<noteq> NaN)"
proof (induction rooms arbitrary: best)
  case Nil
  then show ?case by simp
next
  case (Cons rm rms)
  let ?c = "potential_result ses stu tid rm sel"
  let ?b = "if check_scheduling_constraints sch ?c \<and> fgt (total_score ?c) (snd best)
            then (Some ?c, total_score ?c) else best"
  from Cons.prems have "room_loop sch ses stu tid sel rms ?b = best'"
    by (simp add: Let_def)
  from Cons.IH[OF this] show ?case
  proof
    assume eq: "best' = ?b"
    show ?thesis
    proof (cases "check_scheduling_constraints sch ?c \<and> fgt (total_score ?c) (snd best)")
      case True
      then have "total_score ?c \<noteq> NaN" using fgt_NaN by metis
      with True eq show ?thesis by auto
    next
      case False
      with eq show ?thesis by simp
    qed
  next
    assume "\<exists>rm\<in>set rms. best' = (Some (potential_result ses stu tid rm sel),
               total_score (potential_result ses stu tid rm sel))
      \<and> check_scheduling_constraints sch (potential_result ses stu tid rm sel)
      \<and> total_score (potential_result ses stu tid rm sel) \<noteq> NaN"
    then show ?thesis by auto
  qed
qed

lemma timeslot_loop_cases:
  "timeslot_loop s ses stu rooms crit method tss best = Inr best' \<Longrightarrow>
   best' = best \<or> (\<exists>ts \<in> set tss. \<exists>sel. \<exists>rm \<in> set rooms.
      select_best_examiners stu (examiners_now s) (ts_id ts) (es_required_examiners ses) crit method
        = Inr sel
      \<and> best' = (Some (potential_result ses stu (ts_id ts) rm sel),
               total_score (potential_result ses stu (ts_id ts) rm sel))
      \<and> check_scheduling_constraints (sched s) (potential_result ses stu (ts_id ts) rm sel)
      \<and> total_score (potential_result ses stu (ts_id ts) rm sel) \<noteq> NaN)"
proof (induction tss arbitrary: best)
  case Nil
  then show ?case by simp
next
  case (Cons ts tss)
  from Cons.prems obtain sel where
    sel: "select_best_examiners stu (examiners_now s) (ts_id ts) (es_required_examiners ses) crit method
        = Inr sel"
    by (auto split: sum.splits)
  show ?case
  proof (cases "int (length sel) < es_required_examiners ses")
    case True
    with Cons.prems sel have "timeslot_loop s ses stu rooms crit method tss best = Inr best'"
      by simp
    from Cons.IH[OF this] show ?thesis by auto
  next
    case False
    let ?b = "room_loop (sched s) ses stu (ts_id ts) sel rooms best"
    from False Cons.prems sel have "timeslot_loop s ses stu rooms crit method tss ?b = Inr best'"
      by simp
    from Cons.IH[OF this] show ?thesis
    proof
      assume "best' = ?b"
      then have "room_loop (sched s) ses stu (ts_id ts) sel rooms best = best'" by simp
      from room_loop_cases[OF this] sel show ?thesis by auto
    next
      assume "\<exists>ts\<in>set tss. \<exists>sel. \<exists>rm\<in>set rooms.
        select_best_examiners stu (examiners_now s) (ts_id ts) (es_required_examiners ses) crit method
          = Inr sel
        \<and> best' = (Some (potential_result ses stu (ts_id ts) rm sel),
               total_score (potential_result ses stu (ts_id ts) rm sel))
        \<and> check_scheduling_constraints (sched s) (potential_result ses stu (ts_id ts) rm sel)
        \<and> total_score (potential_result ses stu (ts_id ts) rm sel) \<noteq> NaN"
      then show ?thesis by auto
    qed
  qed
qed

lemma process_session_cases:
  assumes "process_session students rooms timeslots crit method s ses = Inr s'"
  shows "s' = s\<lparr>infeasible := infeasible s @ [es_id ses]\<rparr>
         \<or> committed_step students rooms timeslots crit method s ses s'"
proof (cases "student_lookup students (es_student_id ses)")
  case None
  with assms show ?thesis by (simp add: process_session_def)
next
  case (Some stu)
  with assms obtain bs bsc where
    tl: "timeslot_loop s ses stu rooms crit method timeslots (None, Fin (- 1)) = Inr (bs, bsc)"
    by (auto simp: process_session_def split: sum.splits)
  show ?thesis
  proof (cases bs)
    case None
    with assms Some tl show ?thesis by (simp add: process_session_def)
  next
    case (Some b)
    from timeslot_loop_cases[OF tl] Some obtain ts sel rm where
      f: "ts \<in> set timeslots" "rm \<in> set rooms"
      "select_best_examiners stu (examiners_now s) (ts_id ts) (es_required_examiners ses) crit method
        = Inr sel"
      "b = potential_result ses stu (ts_id ts) rm sel"
      "bsc = total_score (potential_result ses stu (ts_id ts) rm sel)"
      "check_scheduling_constraints (sched s) (potential_result ses stu (ts_id ts) rm sel)"
      "total_score (potential_result ses stu (ts_id ts) rm sel) \<noteq> NaN"
      by auto
    from f(7) have ne: "sel \<noteq> []" using potential_result_empty by metis
    from assms \<open>student_lookup students (es_student_id ses) = Some stu\<close> tl Some
    have "s' = s\<lparr>sched := sched s @ [b], total := fadd (total s) bsc,
        examiners_now := update_workloads (assigned_examiners b) (examiners_now s)\<rparr>"
      by (simp add: process_session_def)
    with f ne \<open>student_lookup students (es_student_id ses) = Some stu\<close> show ?thesis
      unfolding committed_step_def by (auto simp: potential_result_simps)
  qed
qed

subsection \<open>The selection of examiners\<close>

lemma set_insert_desc: "set (insert_desc x ys) = insert x (set ys)"
  by (induction ys) auto

lemma set_sort_desc: "set (sort_desc xs) = set xs"
  by (induction xs) (auto simp: set_insert_desc)

lemma distinct_insert_desc:
  "distinct (map f (insert_desc x ys)) \<longleftrightarrow> f x \<notin> f ` set ys \<and> distinct (map f ys)"
  by (induction ys) (auto simp: set_insert_desc)

lemma distinct_sort_desc: "distinct (map f (sort_desc xs)) \<longleftrightarrow> distinct (map f xs)"
  by (induction xs) (auto simp: distinct_insert_desc set_sort_desc)

lemma set_py_take: "set (py_take k xs) \<subseteq> set xs"
  by (auto simp: py_take_def dest: in_set_takeD)

lemma distinct_py_take: "distinct (map f xs) \<Longrightarrow> distinct (map f (py_take k xs))"
  by (simp add: py_take_def take_map[symmetric] del: take_map)

lemma distinct_zip_fst:
  assumes "distinct (map f xs)"
  shows "distinct (map (\<lambda>p. f (fst p)) (zip xs ys))"
proof -
  have "map (\<lambda>p. f (fst p)) (zip xs ys) = map f (map fst (zip xs ys))" by simp
  also have "\<dots> = take (min (length xs) (length ys)) (map f xs)"
    by (simp only: map_fst_zip_take take_map)
  finally show ?thesis using assms by simp
qed

lemma find_SomeD: "find P xs = Some x \<Longrightarrow> P x \<and> x \<in> set xs"
  by (induction xs) (auto split: if_splits)

text \<open>The shape of a non-empty selection.\<close>

lemma select_best_examiners_shape:
  assumes "select_best_examiners stu examiners tid k crit method = Inr sel" and "sel \<noteq> []"
  shows "\<exists>sup rest. sel = (sup, Fin 0.9) # rest
      \<and> sup \<in> set examiners \<and> ex_id sup = st_supervisor_id stu
      \<and> fst ` set rest \<subseteq> {e \<in> set examiners. ex_id e \<noteq> st_supervisor_id stu}
      \<and> (distinct (map ex_id examiners) \<longrightarrow> distinct (map (\<lambda>p. ex_id (fst p)) rest))"
proof -
  let ?av = "filter (\<lambda>e. tid \<in> set (ex_available_timeslots e)) examiners"
  let ?reg = "filter (\<lambda>e. ex_id e \<noteq> st_supervisor_id stu) ?av"
  from assms obtain sup where sup: "find (\<lambda>e. ex_id e = st_supervisor_id stu) ?av = Some sup"
    by (auto simp: select_best_examiners_def Let_def split: if_splits option.splits)
  from assms sup obtain dm where dm: "decision_rows stu tid crit ?reg = Inr dm"
    by (auto simp: select_best_examiners_def Let_def split: if_splits sum.splits)
  from assms sup dm obtain scores wd where
    ev: "evaluate_alternatives dm crit method = Inr (scores, wd)"
    by (auto simp: select_best_examiners_def Let_def split: if_splits sum.splits)
  let ?rest = "py_take (k - 1) (sort_desc (zip ?reg scores))"
  from assms sup dm ev have sel: "sel = (sup, Fin 0.9) # ?rest"
    by (auto simp: select_best_examiners_def Let_def split: if_splits sum.splits)
  from sup have "sup \<in> set ?av" and s1b: "ex_id sup = st_supervisor_id stu"
    by (auto dest: find_SomeD)
  then have s1a: "sup \<in> set examiners" by simp
  note s1 = s1a s1b
  have s2: "fst ` set ?rest \<subseteq> {e \<in> set examiners. ex_id e \<noteq> st_supervisor_id stu}"
  proof
    fix e assume "e \<in> fst ` set ?rest"
    then obtain p where "p \<in> set ?rest" "e = fst p" by auto
    with set_py_take[of "k - 1" "sort_desc (zip ?reg scores)"]
    have "p \<in> set (zip ?reg scores)" by (auto simp: set_sort_desc)
    then have "fst p \<in> set ?reg" by (metis prod.collapse set_zip_leftD)
    with \<open>e = fst p\<close> show "e \<in> {e \<in> set examiners. ex_id e \<noteq> st_supervisor_id stu}" by simp
  qed
  have s3: "distinct (map (\<lambda>p. ex_id (fst p)) ?rest)" if "distinct (map ex_id examiners)"
  proof -
    from that have "distinct (map ex_id ?reg)" by (simp add: distinct_map_filter)
    then have "distinct (map (\<lambda>p. ex_id (fst p)) (zip ?reg scores))" by (rule distinct_zip_fst)
    then show ?thesis by (simp add: distinct_py_take distinct_sort_desc)
  qed
  from sel s1 s2 s3 show ?thesis by blast
qed

lemma evaluate_alternatives_unsupported:
  assumes "py_upper method \<noteq> ''SAW''" and "py_upper method \<noteq> ''TOPSIS''"
  shows "evaluate_alternatives dm crit method
    = Inl (if rectangular dm then UnsupportedMethod else ShapeError)"
  using assms by (simp add: evaluate_alternatives_def Let_def)

lemma length_matrix_row: "length (matrix_row crit ex ev) = length crit"
  by (simp add: matrix_row_def)

lemma decision_rows_lengths:
  "decision_rows stu tid crit exs = Inr dm \<Longrightarrow> length dm = length exs \<and> (\<forall>r \<in> set dm. length r = length crit)"
  by (induction exs arbitrary: dm) (auto split: sum.splits simp: length_matrix_row)

lemma decision_rows_rectangular:
  assumes "decision_rows stu tid crit exs = Inr dm"
  shows "rectangular dm"
  using decision_rows_lengths[OF assms]
  by (cases dm) (auto simp: rectangular_def list_all_iff)

lemma select_best_examiners_unsupported:
  assumes "py_upper method \<noteq> ''SAW''" and "py_upper method \<noteq> ''TOPSIS''"
    and "select_best_examiners stu examiners tid k crit method = Inr sel"
  shows "sel = []"
  using assms(3) evaluate_alternatives_unsupported[OF assms(1,2)]
  by (auto simp: select_best_examiners_def Let_def split: if_splits option.splits sum.splits)

subsection \<open>Invariants of the session loop\<close>

lemma session_loop_invariant:
  assumes "session_loop students rooms timeslots crit method s xs = (s', r)"
    and "P s"
    and "\<And>s0 ses s1. P s0 \<Longrightarrow> ses \<in> set xs
          \<Longrightarrow> process_session students rooms timeslots crit method s0 ses = Inr s1 \<Longrightarrow> P s1"
  shows "P s'"
  using assms
proof (induction xs arbitrary: s)
  case Nil
  then show ?case by simp
next
  case (Cons ses xs)
  show ?case
  proof (cases "process_session students rooms timeslots crit method s ses")
    case (Inl e)
    with Cons.prems(1) have "s' = s" by simp
    with Cons.prems(2) show ?thesis by simp
  next
    case (Inr s1)
    with Cons.prems(1) have run: "session_loop students rooms timeslots crit method s1 xs = (s', r)"
      by simp
    have "P s1" using Cons.prems(3)[OF Cons.prems(2) _ Inr] by simp
    then show ?thesis
    proof (rule Cons.IH[OF run])
      fix s0 x s2
      assume "P s0" "x \<in> set xs"
        "process_session students rooms timeslots crit method s0 x = Inr s2"
      then show "P s2" using Cons.prems(3)[of s0 x s2] by simp
    qed
  qed
qed

lemma generate_schedule_Inr:
  assumes "generate_schedule students examiners rooms timeslots exam_sessions copt method = (Inr sol, s)"
  shows "session_loop students rooms timeslots (case copt of None \<Rightarrow> default_criteria | Some c \<Rightarrow> c)
           method \<lparr>sched = [], infeasible = [], total = Fin 0, examiners_now = examiners\<rparr>
           (sort_key (\<lambda>x. - es_priority x) exam_sessions) = (s, None)
       \<and> schedule sol = sched s \<and> infeasible_exams sol = infeasible s \<and> method_used sol = method"
proof -
  let ?crit = "case copt of None \<Rightarrow> default_criteria | Some c \<Rightarrow> c"
  let ?run = "session_loop students rooms timeslots ?crit method
      \<lparr>sched = [], infeasible = [], total = Fin 0, examiners_now = examiners\<rparr>
      (sort_key (\<lambda>x. - es_priority x) exam_sessions)"
  obtain s0 r where sl: "?run = (s0, r)" by (cases ?run)
  show ?thesis
  proof (cases r)
    case (Some e)
    with assms sl show ?thesis by (simp add: generate_schedule_def Let_def)
  next
    case None
    show ?thesis
    proof (cases "evaluate_alternatives [replicate (length ?crit) (PyInt 1)] ?crit method")
      case (Inl e)
      with assms sl None show ?thesis by (simp add: generate_schedule_def Let_def)
    next
      case (Inr p)
      with assms sl None show ?thesis
        by (cases p) (auto simp add: generate_schedule_def Let_def)
    qed
  qed
qed

lemma generate_schedule_state:
  assumes "generate_schedule students examiners rooms timeslots exam_sessions copt method = (res, s)"
  shows "\<exists>r. session_loop students rooms timeslots (case copt of None \<Rightarrow> default_criteria | Some c \<Rightarrow> c)
           method \<lparr>sched = [], infeasible = [], total = Fin 0, examiners_now = examiners\<rparr>
           (sort_key (\<lambda>x. - es_priority x) exam_sessions) = (s, r)"
proof -
  let ?crit = "case copt of None \<Rightarrow> default_criteria | Some c \<Rightarrow> c"
  let ?run = "session_loop students rooms timeslots ?crit method
      \<lparr>sched = [], infeasible = [], total = Fin 0, examiners_now = examiners\<rparr>
      (sort_key (\<lambda>x. - es_priority x) exam_sessions)"
  obtain s0 r where sl: "?run = (s0, r)" by (cases ?run)
  have "s = s0"
  proof (cases r)
    case (Some e)
    with assms sl show ?thesis by (simp add: generate_schedule_def Let_def)
  next
    case None
    show ?thesis
    proof (cases "evaluate_alternatives [replicate (length ?crit) (PyInt 1)] ?crit method")
      case (Inl e)
      with assms sl None show ?thesis by (simp add: generate_schedule_def Let_def)
    next
      case (Inr p)
      with assms sl None show ?thesis
        by (cases p) (auto simp add: generate_schedule_def Let_def)
    qed
  qed
  with sl show ?thesis by blast
qed

lemma committed_stepE:
  assumes "committed_step students rooms timeslots crit method s ses s1"
  obtains stu ts rm sel where
    "student_lookup students (es_student_id ses) = Some stu"
    "ts \<in> set timeslots" "rm \<in> set rooms"
    "select_best_examiners stu (examiners_now s) (ts_id ts) (es_required_examiners ses) crit method
       = Inr sel"
    "sel \<noteq> []"
    "check_scheduling_constraints (sched s) (potential_result ses stu (ts_id ts) rm sel)"
    "s1 = s\<lparr>sched := sched s @ [potential_result ses stu (ts_id ts) rm sel],
             total := fadd (total s) (total_score (potential_result ses stu (ts_id ts) rm sel)),
             examiners_now := update_workloads (map (\<lambda>e. ex_id (fst e)) sel) (examiners_now s)\<rparr>"
  using assms unfolding committed_step_def
  apply (elim exE bexE conjE)
  apply (rule that)
        apply assumption+
  done

lemma check_scheduling_constraints_iff:
  "check_scheduling_constraints sch new \<longleftrightarrow> (\<forall>e \<in> set sch. \<not> conflict e new)"
  by (induction sch) (auto simp: conflict_def)

lemma conflict_sym: "conflict a b \<longleftrightarrow> conflict b a"
  by (auto simp: conflict_def)

lemma conflict_free_append:
  assumes "conflict_free xs" and "\<forall>e \<in> set xs. \<not> conflict e new"
  shows "conflict_free (xs @ [new])"
  unfolding conflict_free_def
proof (intro allI impI)
  fix i j assume i: "i < length (xs @ [new])" and j: "j < length (xs @ [new])" and ne: "i \<noteq> j"
  show "\<not> conflict ((xs @ [new]) ! i) ((xs @ [new]) ! j)"
  proof (cases "i < length xs")
    case True
    show ?thesis
    proof (cases "j < length xs")
      case jl: True
      with True assms(1) ne show ?thesis by (simp add: conflict_free_def nth_append)
    next
      case False
      with j have "j = length xs" by simp
      with True assms(2) show ?thesis by (simp add: nth_append)
    qed
  next
    case False
    with i have il: "i = length xs" by simp
    with ne j have "j < length xs" by simp
    from \<open>j < length xs\<close> assms(2) have "\<not> conflict (xs ! j) new" by simp
    then have "\<not> conflict new (xs ! j)" using conflict_sym by blast
    with il \<open>j < length xs\<close> show ?thesis by (simp add: nth_append)
  qed
qed

lemma process_session_conflict_free:
  assumes "process_session students rooms timeslots crit method s ses = Inr s1"
    and "conflict_free (sched s)"
  shows "conflict_free (sched s1)"
  using process_session_cases[OF assms(1)]
proof
  assume "s1 = s\<lparr>infeasible := infeasible s @ [es_id ses]\<rparr>"
  with assms(2) show ?thesis by simp
next
  assume "committed_step students rooms timeslots crit method s ses s1"
  then obtain stu ts rm sel where
    f: "student_lookup students (es_student_id ses) = Some stu"
    "ts \<in> set timeslots" "rm \<in> set rooms"
    "select_best_examiners stu (examiners_now s) (ts_id ts) (es_required_examiners ses) crit method
       = Inr sel"
    "sel \<noteq> []"
    "check_scheduling_constraints (sched s) (potential_result ses stu (ts_id ts) rm sel)"
    "s1 = s\<lparr>sched := sched s @ [potential_result ses stu (ts_id ts) rm sel],
             total := fadd (total s) (total_score (potential_result ses stu (ts_id ts) rm sel)),
             examiners_now := update_workloads (map (\<lambda>e. ex_id (fst e)) sel) (examiners_now s)\<rparr>"
    by (rule committed_stepE)
  from f(7) have "sched s1 = sched s @ [potential_result ses stu (ts_id ts) rm sel]" by simp
  with f(6) assms(2) show ?thesis
    by (simp add: conflict_free_append check_scheduling_constraints_iff)
qed

text \<open>Claim C2. In every solution that \<open>generate_schedule\<close> returns, two committed
  assignments at different positions of the schedule that share a time slot have different
  rooms and no examiner in common.\<close>

theorem generate_schedule_conflict_free:
  assumes "generate_schedule students examiners rooms timeslots exam_sessions copt method = (Inr sol, s)"
    and "i < length (schedule sol)" and "j < length (schedule sol)" and "i \<noteq> j"
    and "timeslot_id (schedule sol ! i) = timeslot_id (schedule sol ! j)"
  shows "room_id (schedule sol ! i) \<noteq> room_id (schedule sol ! j)
     \<and> set (assigned_examiners (schedule sol ! i)) \<inter> set (assigned_examiners (schedule sol ! j)) = {}"
proof -
  note g = generate_schedule_Inr[OF assms(1)]
  have "conflict_free (sched s)"
    by (rule session_loop_invariant[where P = "\<lambda>s. conflict_free (sched s)", OF g[THEN conjunct1]])
       (simp_all add: conflict_free_def process_session_conflict_free[unfolded conflict_free_def])
  with g assms(2-4) have "\<not> conflict (schedule sol ! i) (schedule sol ! j)"
    by (simp add: conflict_free_def)
  with assms(5) show ?thesis by (simp add: conflict_def)
qed

lemma process_session_supervised:
  assumes "process_session students rooms timeslots crit method s ses = Inr s1"
    and "ses \<in> set xs"
    and "\<forall>r \<in> set (sched s). supervised students xs r"
  shows "\<forall>r \<in> set (sched s1). supervised students xs r"
  using process_session_cases[OF assms(1)]
proof
  assume "s1 = s\<lparr>infeasible := infeasible s @ [es_id ses]\<rparr>"
  with assms(3) show ?thesis by simp
next
  assume "committed_step students rooms timeslots crit method s ses s1"
  then obtain stu ts rm sel where
    f: "student_lookup students (es_student_id ses) = Some stu"
    "ts \<in> set timeslots" "rm \<in> set rooms"
    "select_best_examiners stu (examiners_now s) (ts_id ts) (es_required_examiners ses) crit method
       = Inr sel"
    "sel \<noteq> []"
    "check_scheduling_constraints (sched s) (potential_result ses stu (ts_id ts) rm sel)"
    "s1 = s\<lparr>sched := sched s @ [potential_result ses stu (ts_id ts) rm sel],
             total := fadd (total s) (total_score (potential_result ses stu (ts_id ts) rm sel)),
             examiners_now := update_workloads (map (\<lambda>e. ex_id (fst e)) sel) (examiners_now s)\<rparr>"
    by (rule committed_stepE)
  from f(7) have f4: "sched s1 = sched s @ [potential_result ses stu (ts_id ts) rm sel]" by simp
  from select_best_examiners_shape[OF f(4,5)] obtain sup rest where
    "sel = (sup, Fin 0.9) # rest" "ex_id sup = st_supervisor_id stu" by blast
  then have "st_supervisor_id stu \<in> set (assigned_examiners (potential_result ses stu (ts_id ts) rm sel))"
    by (simp add: potential_result_simps)
  with f(1) assms(2) have "supervised students xs (potential_result ses stu (ts_id ts) rm sel)"
    unfolding supervised_def by (auto simp: potential_result_simps)
  with assms(3) f4 show ?thesis by auto
qed

text \<open>Claim C1. Every assignment in the schedule of a returned solution was committed for one
  of the given sessions; the student that session refers to is known, and the supervisor id
  of that student is among the assigned examiners.\<close>

theorem generate_schedule_supervisor_assigned:
  assumes "generate_schedule students examiners rooms timeslots exam_sessions copt method = (Inr sol, s)"
    and "r \<in> set (schedule sol)"
  shows "\<exists>ses \<in> set exam_sessions. \<exists>stu.
        exam_id r = es_id ses
      \<and> student_lookup students (es_student_id ses) = Some stu
      \<and> student_name r = st_name stu
      \<and> st_supervisor_id stu \<in> set (assigned_examiners r)"
proof -
  note g = generate_schedule_Inr[OF assms(1)]
  let ?xs = "sort_key (\<lambda>x. - es_priority x) exam_sessions"
  have "\<forall>r \<in> set (sched s). supervised students ?xs r"
    by (rule session_loop_invariant[where P = "\<lambda>s. \<forall>r \<in> set (sched s). supervised students ?xs r",
          OF g[THEN conjunct1]])
       (simp, rule process_session_supervised)
  with g assms(2) have "supervised students ?xs r" by simp
  then show ?thesis unfolding supervised_def by simp
qed

subsection \<open>The small run, evaluated\<close>

lemmas demo_defs = demo_students_def demo_examiner_def demo_examiners_def demo_rooms_def
  demo_timeslots_def demo_sessions_def demo_criteria_def

lemmas engine_defs = select_best_examiners_def evaluate_examiner_for_student_def
  calculate_expertise_match_def unit_interval_def matrix_row_def evaluate_alternatives_def
  rectangular_def np_array_def py_upper_def upper_char_def py_lower_def lower_char_def
  py_split_def is_space_def saw_calculate_scores_def saw_normalize_matrix_def well_shaped_def
  normalize_float_def from_columns_def column_def fne_def fmax2_def fmin2_def dot_def py_dict_def
  py_take_def Let_def

lemma demo_select_1:
  "select_best_examiners (demo_students ! 0) demo_examiners 1 2 demo_criteria ''SAW''
     = Inr [(demo_examiner 1 4 1, Fin (9 / 10)), (demo_examiner 2 5 1, Fin 1)]"
  by (simp add: demo_defs engine_defs)


lemmas alloc_defs = generate_schedule_def process_session_def student_lookup_def
  potential_result_def evaluate_room_suitability_def np_mean_def fgt_def

lemma demo_run:
  "\<exists>sol s. generate_schedule demo_students demo_examiners demo_rooms demo_timeslots demo_sessions
        (Some demo_criteria) ''SAW'' = (Inr sol, s)
    \<and> map (\<lambda>r. (exam_id r, timeslot_id r, room_id r, assigned_examiners r)) (schedule sol)
        = [(10, 1, 1, [1, 2]), (11, 1, 2, [3, 4])]
    \<and> map total_score (schedule sol) = [Fin (911 / 1000), Fin (858 / 1000)]
    \<and> infeasible_exams sol = [12]
    \<and> total_satisfaction sol = Fin (1769 / 2000)
    \<and> examiners_now s = [demo_examiner 1 4 2, demo_examiner 2 5 2, demo_examiner 3 4 2,
          demo_examiner 4 4 2]"
  by (simp add: demo_defs engine_defs alloc_defs)


lemma demo_run_schedule:
  assumes "map (\<lambda>r. (exam_id r, timeslot_id r, room_id r, assigned_examiners r)) xs
        = [(10, 1, 1, [1, 2]), (11, 1, 2, [3, 4])]"
  shows "length xs = 2"
    and "exam_id (xs ! 0) = 10" and "timeslot_id (xs ! 0) = 1" and "room_id (xs ! 0) = 1"
    and "assigned_examiners (xs ! 0) = [1, 2]"
    and "exam_id (xs ! 1) = 11" and "timeslot_id (xs ! 1) = 1" and "room_id (xs ! 1) = 2"
    and "assigned_examiners (xs ! 1) = [3, 4]"
proof -
  from assms obtain a b where xs: "xs = [a, b]" by auto
  with assms show "length xs = 2"
    and "exam_id (xs ! 0) = 10" and "timeslot_id (xs ! 0) = 1" and "room_id (xs ! 0) = 1"
    and "assigned_examiners (xs ! 0) = [1, 2]"
    and "exam_id (xs ! 1) = 11" and "timeslot_id (xs ! 1) = 1" and "room_id (xs ! 1) = 2"
    and "assigned_examiners (xs ! 1) = [3, 4]"
    by simp_all
qed

theorem generate_schedule_conflict_free_witness:
  "\<exists>sol s. generate_schedule demo_students demo_examiners demo_rooms demo_timeslots demo_sessions
        (Some demo_criteria) ''SAW'' = (Inr sol, s)
    \<and> 0 < length (schedule sol) \<and> 1 < length (schedule sol)
    \<and> timeslot_id (schedule sol ! 0) = timeslot_id (schedule sol ! 1)
    \<and> room_id (schedule sol ! 0) \<noteq> room_id (schedule sol ! 1)
    \<and> set (assigned_examiners (schedule sol ! 0)) \<inter> set (assigned_examiners (schedule sol ! 1)) = {}"
proof -
  from demo_run obtain sol s where
    run: "generate_schedule demo_students demo_examiners demo_rooms demo_timeslots demo_sessions
        (Some demo_criteria) ''SAW'' = (Inr sol, s)"
    and m: "map (\<lambda>r. (exam_id r, timeslot_id r, room_id r, assigned_examiners r)) (schedule sol)
        = [(10, 1, 1, [1, 2]), (11, 1, 2, [3, 4])]"
    by (elim exE conjE)
  note d = demo_run_schedule[OF m]
  have l: "0 < length (schedule sol)" "1 < length (schedule sol)" "(0::nat) \<noteq> 1"
    and t: "timeslot_id (schedule sol ! 0) = timeslot_id (schedule sol ! 1)"
    using d by simp_all
  from generate_schedule_conflict_free[OF run l t] run l t show ?thesis by blast
qed

theorem generate_schedule_supervisor_assigned_witness:
  "\<exists>sol s r. generate_schedule demo_students demo_examiners demo_rooms demo_timeslots demo_sessions
        (Some demo_criteria) ''SAW'' = (Inr sol, s)
    \<and> r \<in> set (schedule sol) \<and> exam_id r = 11
    \<and> (\<exists>ses \<in> set demo_sessions. \<exists>stu.
          exam_id r = es_id ses
        \<and> student_lookup demo_students (es_student_id ses) = Some stu
        \<and> student_name r = st_name stu
        \<and> st_supervisor_id stu \<in> set (assigned_examiners r))"
proof -
  from demo_run obtain sol s where
    run: "generate_schedule demo_students demo_examiners demo_rooms demo_timeslots demo_sessions
        (Some demo_criteria) ''SAW'' = (Inr sol, s)"
    and m: "map (\<lambda>r. (exam_id r, timeslot_id r, room_id r, assigned_examiners r)) (schedule sol)
        = [(10, 1, 1, [1, 2]), (11, 1, 2, [3, 4])]"
    by (elim exE conjE)
  note d = demo_run_schedule[OF m]
  from d(1) have mem: "schedule sol ! 1 \<in> set (schedule sol)" by simp
  from generate_schedule_supervisor_assigned[OF run mem] run mem d(6) show ?thesis by blast
qed

end
